theory Spec2Isabelle
  imports Complex_Main
begin

section \<open>Data model of src/vad/SileroVAD.ts\<close>

text \<open>
  The engine is the class \<open>SileroVAD\<close>. JavaScript numbers (probabilities, timestamps in
  seconds, durations in milliseconds) are modelled as \<open>real\<close>; array lengths and loop
  counters as \<open>nat\<close>; buffer indices that the source computes with \<open>Math.max(0, ...)\<close>
  or negates before \<open>slice\<close> as \<open>int\<close>. A \<open>Float32Array\<close> is a list of samples.
\<close>

datatype VADState = silence | potential_start | speaking | potential_end

record SileroVADConfig =
  enabled :: bool
  positiveSpeechThreshold :: real
  negativeSpeechThreshold :: real
  silenceDuration :: real
  preSpeechPadDuration :: real
  minSpeechDuration :: real
  modelPath :: string

text \<open>
  \<open>Partial<SileroVADConfig>\<close>, the argument of the constructor and of \<open>updateConfig\<close>:
  every key may be absent (\<open>None\<close>).
\<close>

record PartialConfig =
  opt_enabled :: "bool option"
  opt_positiveSpeechThreshold :: "real option"
  opt_negativeSpeechThreshold :: "real option"
  opt_silenceDuration :: "real option"
  opt_preSpeechPadDuration :: "real option"
  opt_minSpeechDuration :: "real option"
  opt_modelPath :: "string option"

record Segment =
  seg_start :: real
  seg_end :: real
  seg_duration :: real
  seg_audioData :: "real list"

record VADEventData =
  ev_isSpeech :: bool
  ev_probability :: real
  ev_timestamp :: real
  ev_segment :: "Segment option"

text \<open>The two events of \<open>SileroVADEvents\<close>; \<open>emit\<close> is modelled by the list of events
  a method returns, in emission order.\<close>

datatype event = speech_start VADEventData | speech_end VADEventData

type_synonym tensor = "real list"

text \<open>
  The ONNX inference session is an external collaborator: one \<open>session.run\<close> maps a frame
  and the recurrent state tensor to the speech probability (\<open>out.output.data[0]\<close>) and the
  next state tensor (\<open>out.stateN || out.state\<close>). Following its contract it is a function of
  these two inputs; a run rejected by the runtime is outside the model.
\<close>

type_synonym inference = "real list \<Rightarrow> tensor \<Rightarrow> real \<times> tensor"

record SileroVAD =
  session :: "inference option"
  config :: SileroVADConfig
  state :: VADState
  stateTensor :: "tensor option"
  audioBuffer :: "real list list"
  speechStartTime :: real
  speechEndCandidateTime :: real
  speechStartBufferIndex :: int
  potentialSpeechDurationMs :: real
  potentialSilenceDurationMs :: real
  sampleBuffer :: "real list"
  lastProbability :: real
  lastTimestamp :: real

text \<open>\<open>private frameSize: number = 512\<close>, assigned 512 again by the constructor and never
  changed afterwards.\<close>

definition frameSize :: nat where
  "frameSize = 512"

datatype error = NotInitialized

record ProcessResult =
  res_isSpeech :: bool
  res_probability :: real

section \<open>JavaScript primitives used by the engine\<close>

text \<open>The operator \<open>a ?? b\<close>: \<open>b\<close> only when \<open>a\<close> is null or undefined.\<close>

fun nullish :: "'a option \<Rightarrow> 'a \<Rightarrow> 'a" where
  "nullish None d = d"
| "nullish (Some x) d = x"

text \<open>\<open>Array.prototype.slice(start)\<close> for an integer \<open>start\<close>: a negative start counts from
  the end, and \<open>slice(-0)\<close> is \<open>slice(0)\<close>, the whole array.\<close>

definition slice_from :: "int \<Rightarrow> 'a list \<Rightarrow> 'a list" where
  "slice_from start xs =
     (if start < 0 then drop (nat (max (int (length xs) + start) 0)) xs
      else drop (nat (min start (int (length xs)))) xs)"

text \<open>\<open>slice(begin, end)\<close> for \<open>0 \<le> begin \<le> end\<close>.\<close>

definition slice_range :: "'a list \<Rightarrow> nat \<Rightarrow> nat \<Rightarrow> 'a list" where
  "slice_range xs b e = take (e - b) (drop b xs)"

text \<open>
  \<open>target.set(source, offset)\<close> on a typed array. The library raises a RangeError when the
  source does not fit; both uses in the engine write into an array allocated with the total
  length, so that case does not arise there (\<open>typed_set_fits\<close> below is the equation the
  uses rely on) and the model leaves the target unchanged in it.
\<close>

definition typed_set :: "'a list \<Rightarrow> 'a list \<Rightarrow> nat \<Rightarrow> 'a list" where
  "typed_set target source off =
     (if off + length source \<le> length target
      then take off target @ source @ drop (off + length source) target
      else target)"

section \<open>Construction, initialisation, configuration\<close>

definition new_SileroVAD :: "PartialConfig \<Rightarrow> SileroVAD" where
  "new_SileroVAD cfg =
     \<lparr> session = None,
       config = \<lparr> enabled = nullish (opt_enabled cfg) True,
                  positiveSpeechThreshold = nullish (opt_positiveSpeechThreshold cfg) 0.3,
                  negativeSpeechThreshold = nullish (opt_negativeSpeechThreshold cfg) 0.25,
                  silenceDuration = nullish (opt_silenceDuration cfg) 1400,
                  preSpeechPadDuration = nullish (opt_preSpeechPadDuration cfg) 800,
                  minSpeechDuration = nullish (opt_minSpeechDuration cfg) 400,
                  modelPath = nullish (opt_modelPath cfg) ''/models/silero_vad_v5.onnx'' \<rparr>,
       state = silence,
       stateTensor = None,
       audioBuffer = [],
       speechStartTime = 0,
       speechEndCandidateTime = 0,
       speechStartBufferIndex = 0,
       potentialSpeechDurationMs = 0,
       potentialSilenceDurationMs = 0,
       sampleBuffer = [],
       lastProbability = 0,
       lastTimestamp = 0 \<rparr>"

definition resetStates :: "SileroVAD \<Rightarrow> SileroVAD" where
  "resetStates v = v\<lparr>stateTensor := Some (replicate (2 * 128) 0)\<rparr>"

text \<open>\<open>initialize\<close> on its successful path: the loaded model becomes the session.\<close>

definition initialize :: "inference \<Rightarrow> SileroVAD \<Rightarrow> SileroVAD" where
  "initialize model v = resetStates (v\<lparr>session := Some model\<rparr>)"

text \<open>\<open>this.config = { ...this.config, ...config }\<close>: each key present in the update
  replaces the stored value. Nothing is validated and nothing is raised.\<close>

definition updateConfig :: "SileroVAD \<Rightarrow> PartialConfig \<Rightarrow> SileroVAD" where
  "updateConfig v upd =
     v\<lparr>config :=
        \<lparr> enabled = nullish (opt_enabled upd) (enabled (config v)),
          positiveSpeechThreshold =
            nullish (opt_positiveSpeechThreshold upd) (positiveSpeechThreshold (config v)),
          negativeSpeechThreshold =
            nullish (opt_negativeSpeechThreshold upd) (negativeSpeechThreshold (config v)),
          silenceDuration = nullish (opt_silenceDuration upd) (silenceDuration (config v)),
          preSpeechPadDuration =
            nullish (opt_preSpeechPadDuration upd) (preSpeechPadDuration (config v)),
          minSpeechDuration = nullish (opt_minSpeechDuration upd) (minSpeechDuration (config v)),
          modelPath = nullish (opt_modelPath upd) (modelPath (config v)) \<rparr>\<rparr>"

section \<open>The hysteresis state machine\<close>

definition resetToSilence :: "SileroVAD \<Rightarrow> SileroVAD" where
  "resetToSilence v =
     v\<lparr> state := silence,
        speechStartTime := 0,
        speechEndCandidateTime := 0,
        potentialSpeechDurationMs := 0,
        potentialSilenceDurationMs := 0,
        speechStartBufferIndex := 0 \<rparr>"

definition calculateSpeechStartBufferIndex :: "SileroVAD \<Rightarrow> int" where
  "calculateSpeechStartBufferIndex v =
     (if length (audioBuffer v) = 0 then 0
      else
        let lastChunkLength =
              (if length (last (audioBuffer v)) = 0 then frameSize
               else length (last (audioBuffer v)));
            prePadSamples = (preSpeechPadDuration (config v) * 16000) / 1000;
            prePadFrames = \<lceil>prePadSamples / real (max 1 lastChunkLength)\<rceil>
        in max 0 (int (length (audioBuffer v)) - prePadFrames))"

definition confirmSpeechStart :: "SileroVAD \<Rightarrow> real \<Rightarrow> real \<Rightarrow> event list \<times> SileroVAD" where
  "confirmSpeechStart v ts p =
     (let v1 = v\<lparr> state := speaking,
                  potentialSpeechDurationMs := 0,
                  potentialSilenceDurationMs := 0,
                  speechEndCandidateTime := 0 \<rparr>;
          v2 = v1\<lparr>speechStartBufferIndex := calculateSpeechStartBufferIndex v1\<rparr>;
          eventData = \<lparr> ev_isSpeech = True, ev_probability = p, ev_timestamp = ts,
                        ev_segment = None \<rparr>
      in ([speech_start eventData], v2))"

text \<open>The merge loop of \<open>createSpeechSegment\<close>: each chunk is written at the running
  offset into the array allocated with the total length.\<close>

fun merge_chunks :: "real list list \<Rightarrow> real list \<Rightarrow> nat \<Rightarrow> real list" where
  "merge_chunks [] audio off = audio"
| "merge_chunks (chunk # rest) audio off =
     merge_chunks rest (typed_set audio chunk off) (off + length chunk)"

definition createSpeechSegment :: "SileroVAD \<Rightarrow> real \<Rightarrow> Segment" where
  "createSpeechSegment v endTime =
     (let segmentData = slice_from (speechStartBufferIndex v) (audioBuffer v);
          totalLength = foldl (\<lambda>s chunk. s + length chunk) 0 segmentData;
          audio = merge_chunks segmentData (replicate totalLength 0) 0;
          durationMs = (real totalLength / 16000) * 1000;
          startTimeSeconds = endTime - (durationMs / 1000);
          segmentStart = max 0 startTimeSeconds
      in \<lparr> seg_start = segmentStart, seg_end = endTime, seg_duration = durationMs,
           seg_audioData = audio \<rparr>)"

definition endSpeech :: "SileroVAD \<Rightarrow> real \<Rightarrow> real \<Rightarrow> event list \<times> SileroVAD" where
  "endSpeech v ts p =
     (let speechDurationSeconds = ts - speechStartTime v;
          speechDurationMs = speechDurationSeconds * 1000;
          seg = (if speechDurationMs \<ge> minSpeechDuration (config v)
                 then Some (createSpeechSegment v ts) else None);
          eventData = \<lparr> ev_isSpeech = False, ev_probability = p, ev_timestamp = ts,
                        ev_segment = seg \<rparr>;
          v1 = resetToSilence v;
          prePadSamples = (preSpeechPadDuration (config v1) * 16000) / 1000;
          prePadFrames = \<lceil>prePadSamples / 320\<rceil>;
          maxBufferFrames = prePadFrames * 2;
          v2 = (if int (length (audioBuffer v1)) > maxBufferFrames
                then v1\<lparr>audioBuffer := slice_from (- maxBufferFrames) (audioBuffer v1)\<rparr>
                else v1)
      in ([speech_end eventData], v2))"

definition updateVADState ::
  "SileroVAD \<Rightarrow> real \<Rightarrow> real \<Rightarrow> real \<Rightarrow> bool \<times> event list \<times> SileroVAD" where
  "updateVADState v p ts processedDurationMs =
     (let durationMs = (if processedDurationMs > 0 then processedDurationMs
                        else (real frameSize / 16000) * 1000);
          positiveThreshold = positiveSpeechThreshold (config v);
          negativeThreshold = negativeSpeechThreshold (config v);
          (evs, v') =
            (case state v of
               silence \<Rightarrow>
                 (if p > positiveThreshold
                  then ([], v\<lparr> state := potential_start,
                                speechStartTime := ts,
                                potentialSpeechDurationMs := durationMs,
                                potentialSilenceDurationMs := 0 \<rparr>)
                  else ([], v))
             | potential_start \<Rightarrow>
                 (if p > positiveThreshold
                  then (let v1 = v\<lparr>potentialSpeechDurationMs :=
                                      potentialSpeechDurationMs v + durationMs\<rparr>
                        in if potentialSpeechDurationMs v1 \<ge> minSpeechDuration (config v1)
                           then confirmSpeechStart v1 ts p
                           else ([], v1))
                  else if p < negativeThreshold then ([], resetToSilence v)
                  else ([], v))
             | speaking \<Rightarrow>
                 (if p < negativeThreshold
                  then ([], v\<lparr> state := potential_end,
                                potentialSilenceDurationMs := durationMs,
                                speechEndCandidateTime := ts \<rparr>)
                  else ([], v\<lparr> potentialSilenceDurationMs := 0,
                                speechEndCandidateTime := 0 \<rparr>))
             | potential_end \<Rightarrow>
                 (if p < negativeThreshold
                  then (let v1 = v\<lparr>potentialSilenceDurationMs :=
                                      potentialSilenceDurationMs v + durationMs\<rparr>
                        in if potentialSilenceDurationMs v1 \<ge> silenceDuration (config v1)
                           then (let endTime = (if speechEndCandidateTime v1 \<noteq> 0
                                                then speechEndCandidateTime v1 else ts)
                                 in endSpeech v1 endTime p)
                           else ([], v1))
                  else if p > positiveThreshold
                  then ([], v\<lparr> state := speaking,
                                potentialSilenceDurationMs := 0,
                                speechEndCandidateTime := 0 \<rparr>)
                  else ([], v)))
      in (state v' = speaking \<or> state v' = potential_end, evs, v'))"

section \<open>Frame reassembly and \<open>process\<close>\<close>

text \<open>\<open>processFrame\<close>: one inference call. It raises when the session or the state
  tensor is missing; the engine at the moment of the raise is kept with the error.\<close>

definition processFrame :: "SileroVAD \<Rightarrow> real list \<Rightarrow> (error \<times> SileroVAD) + (real \<times> SileroVAD)" where
  "processFrame v frame =
     (case session v of
        None \<Rightarrow> Inl (NotInitialized, v)
      | Some run \<Rightarrow>
          (case stateTensor v of
             None \<Rightarrow> Inl (NotInitialized, v)
           | Some st \<Rightarrow> Inr (fst (run frame st), v\<lparr>stateTensor := Some (snd (run frame st))\<rparr>)))"

text \<open>
  The \<open>while\<close> loop of \<open>process\<close> over the combined audio. Besides the loop variables
  (\<open>offset\<close>, \<open>totalProbability\<close>, \<open>frameCount\<close>) the model returns \<open>inferred\<close>, the frames
  handed to \<open>processFrame\<close> with the probability each call returned, in call order; the
  source does not store this list, it is the observation of its inference calls.
\<close>

function process_loop ::
  "real list \<Rightarrow> nat \<Rightarrow> real \<Rightarrow> nat \<Rightarrow> (real list \<times> real) list \<Rightarrow> SileroVAD \<Rightarrow>
     (error \<times> SileroVAD) + (nat \<times> real \<times> nat \<times> (real list \<times> real) list \<times> SileroVAD)" where
  "process_loop combinedAudio off totalProbability frameCount inferred v =
     (if off + frameSize \<le> length combinedAudio
      then (let frame = slice_range combinedAudio off (off + frameSize)
            in case processFrame v frame of
                 Inl e \<Rightarrow> Inl e
               | Inr (p, v1) \<Rightarrow>
                   process_loop combinedAudio (off + frameSize) (totalProbability + p)
                     (frameCount + 1) (inferred @ [(frame, p)]) (v1\<lparr>lastProbability := p\<rparr>))
      else Inr (off, totalProbability, frameCount, inferred, v))"
  by pat_completeness auto
termination
  by (relation "measure (\<lambda>(c, off, tp, fc, inf, v). length c - off)")
     (auto simp: frameSize_def)

declare process_loop.simps [simp del]

text \<open>Lines 139--151 of \<open>process\<close>: the batched pruning of the audio buffer, run only in
  the silence state. For an empty chunk the source divides by zero: the quotient is
  \<open>+Infinity\<close> or \<open>NaN\<close> (no pruning, every comparison is false) when \<open>prePadSamples \<ge> 0\<close>
  and \<open>-Infinity\<close> (\<open>slice(+Infinity)\<close>, the empty array) when it is negative.\<close>

definition limit_buffer :: "SileroVAD \<Rightarrow> real list \<Rightarrow> SileroVAD" where
  "limit_buffer v audioData =
     (if state v = silence
      then (let prePadSamples = (preSpeechPadDuration (config v) * 16000) / 1000
            in if length audioData = 0
               then (if prePadSamples < 0 then v\<lparr>audioBuffer := []\<rparr> else v)
               else (let prePadFrames = \<lceil>prePadSamples / real (length audioData)\<rceil>;
                         maxBufferFrames = prePadFrames * 2
                     in if real (length (audioBuffer v)) > real_of_int maxBufferFrames * 1.5
                        then v\<lparr>audioBuffer := slice_from (- maxBufferFrames) (audioBuffer v)\<rparr>
                        else v))
      else v)"

definition process ::
  "SileroVAD \<Rightarrow> real list \<Rightarrow> real \<Rightarrow>
     (error \<times> SileroVAD) + (ProcessResult \<times> (real list \<times> real) list \<times> event list \<times> SileroVAD)" where
  "process v audioData ts =
     (let v1 = v\<lparr>lastTimestamp := ts\<rparr>;
          v2 = v1\<lparr>audioBuffer := audioBuffer v1 @ [audioData]\<rparr>;
          v3 = limit_buffer v2 audioData;
          totalSamples = length (sampleBuffer v3) + length audioData;
          combinedAudio =
            typed_set (typed_set (replicate totalSamples 0) (sampleBuffer v3) 0)
              audioData (length (sampleBuffer v3))
      in case process_loop combinedAudio 0 0 0 [] v3 of
           Inl e \<Rightarrow> Inl e
         | Inr (off, totalProbability, frameCount, inferred, v4) \<Rightarrow>
             (let v5 = v4\<lparr>sampleBuffer :=
                          (if off < length combinedAudio then drop off combinedAudio else [])\<rparr>;
                  processedDurationMs =
                    (if frameCount > 0
                     then real frameCount * ((real frameSize / 16000) * 1000)
                     else (real (length audioData) / 16000) * 1000);
                  finalProbability =
                    (if frameCount > 0 then totalProbability / real frameCount
                     else lastProbability v5);
                  r = updateVADState v5 finalProbability ts processedDurationMs
              in Inr (\<lparr> res_isSpeech = fst r, res_probability = finalProbability \<rparr>,
                      inferred, fst (snd r), snd (snd r))))"

definition reset :: "SileroVAD \<Rightarrow> SileroVAD" where
  "reset v =
     resetStates ((resetToSilence v)\<lparr> audioBuffer := [],
                                     sampleBuffer := [],
                                     lastProbability := 0,
                                     lastTimestamp := 0 \<rparr>)"

text \<open>\<open>flush(timestamp?)\<close>. The chain of \<open>??\<close> is kept as written: \<open>speechEndCandidateTime\<close>
  and \<open>lastTimestamp\<close> are numbers, never null or undefined.\<close>

definition flush :: "SileroVAD \<Rightarrow> real option \<Rightarrow> event list \<times> SileroVAD" where
  "flush v ts =
     (if state v = speaking \<or> state v = potential_end
      then (let endTime =
                  nullish ts
                    (nullish (Some (speechEndCandidateTime v))
                       (nullish (Some (lastTimestamp v)) (speechStartTime v + 1000)))
            in endSpeech v endTime (lastProbability v))
      else if state v = potential_start then ([], resetToSilence v)
      else ([], v))"

section \<open>Callers and observations used to state the properties\<close>

text \<open>A caller feeding a sequence of \<open>(chunk, timestamp)\<close> pairs to \<open>process\<close> in order.
  It collects the inference calls and the events of all calls and stops at the first
  raise.\<close>

fun process_all ::
  "SileroVAD \<Rightarrow> (real list \<times> real) list \<Rightarrow>
     (error \<times> SileroVAD) + ((real list \<times> real) list \<times> event list \<times> SileroVAD)" where
  "process_all v [] = Inr ([], [], v)"
| "process_all v ((audioData, ts) # rest) =
     (case process v audioData ts of
        Inl e \<Rightarrow> Inl e
      | Inr (r, inferred, evs, v1) \<Rightarrow>
          (case process_all v1 rest of
             Inl e \<Rightarrow> Inl e
           | Inr (inferred', evs', v2) \<Rightarrow> Inr (inferred @ inferred', evs @ evs', v2)))"


definition engine_after_all :: "(error \<times> SileroVAD) + ('a \<times> 'b \<times> SileroVAD) \<Rightarrow> SileroVAD" where
  "engine_after_all r =
     (case r of Inl (e, v) \<Rightarrow> v | Inr (x, y, v) \<Rightarrow> v)"

text \<open>The fields the state machine reads and writes, apart from the buffers.\<close>

definition machine_fields ::
  "SileroVAD \<Rightarrow> VADState \<times> SileroVADConfig \<times> real \<times> real \<times> int \<times> real \<times> real" where
  "machine_fields v =
     (state v, config v, speechStartTime v, speechEndCandidateTime v,
      speechStartBufferIndex v, potentialSpeechDurationMs v, potentialSilenceDurationMs v)"

text \<open>A configuration argument that sets only \<open>enabled\<close>, and a stand-in for the model
  used in the examples: it reports the first sample of the frame as the probability and
  leaves the recurrent state as it is.\<close>

definition default_config :: PartialConfig where
  "default_config =
     \<lparr> opt_enabled = Some True, opt_positiveSpeechThreshold = None,
       opt_negativeSpeechThreshold = None, opt_silenceDuration = None,
       opt_preSpeechPadDuration = None, opt_minSpeechDuration = None, opt_modelPath = None \<rparr>"

definition first_sample_model :: inference where
  "first_sample_model frame st = (if frame = [] then 0 else hd frame, st)"

text \<open>The events of a run of \<open>process_all\<close> that returned.\<close>

definition run_events ::
  "(error \<times> SileroVAD) + ((real list \<times> real) list \<times> event list \<times> SileroVAD) \<Rightarrow> event list" where
  "run_events r = (case r of Inl e \<Rightarrow> [] | Inr (inferred, evs, v) \<Rightarrow> evs)"

text \<open>An initialised engine with short durations (one 32 ms frame of speech confirms the
  speech, one more frame of silence after the candidate ends it), and a run of four chunks
  of one frame each on it: two frames of speech from timestamp 0, then two of silence.\<close>

definition short_config :: PartialConfig where
  "short_config =
     default_config\<lparr>opt_silenceDuration := Some 32, opt_minSpeechDuration := Some 32\<rparr>"

definition short_engine :: SileroVAD where
  "short_engine = initialize first_sample_model (new_SileroVAD short_config)"

definition short_run :: "(real list \<times> real) list" where
  "short_run = [(replicate 512 0.9, 0), (replicate 512 0.9, 0.032),
                (replicate 512 0, 0.064), (replicate 512 0, 0.096)]"

text \<open>The number \<open>maxBufferFrames\<close> that \<open>process\<close> computes for a non-empty chunk (lines
  143--145): ceil(prePadSamples / frameLength) \<open>\<times>\<close> 2 with
  prePadSamples = preSpeechPadDuration \<open>\<times>\<close> 16000 / 1000.\<close>

definition maxBufferFrames :: "SileroVAD \<Rightarrow> real list \<Rightarrow> int" where
  "maxBufferFrames v audioData =
     \<lceil>((preSpeechPadDuration (config v) * 16000) / 1000) / real (length audioData)\<rceil> * 2"





text \<open>Three engine states reached from a new engine by steps of the state machine: speech
  is first seen at timestamp 1, confirmed at timestamp 2, and a silence candidate is
  recorded at timestamp 3.\<close>

definition example_potential_start :: SileroVAD where
  "example_potential_start = snd (snd (updateVADState (new_SileroVAD default_config) 0.9 1 32))"

definition example_speaking :: SileroVAD where
  "example_speaking = snd (snd (updateVADState example_potential_start 0.8 2 416))"

definition example_potential_end :: SileroVAD where
  "example_potential_end = snd (snd (updateVADState example_speaking 0.1 3 32))"

section \<open>The queue path\<close>

record VADResultEvent =
  vr_isSpeech :: bool
  vr_probability :: real
  vr_timestamp :: real

datatype queue_event = engine_event event | vad_result VADResultEvent

text \<open>Modelled from the spec: the queue path of the engine (\<open>enqueue\<close> and the loop that
  drains the queue). \<open>AudioProcessor.process\<close> calls it, and \<open>AudioProcessor\<close> and \<open>RTA\<close>
  forward its \<open>vad-result\<close> events, but the source of \<open>SileroVAD.ts\<close> does not contain it:
  there \<open>process\<close> only returns its result. Following sections 4.5, 6 and 7 of the
  specification, queued frames are processed one at a time in
  arrival order with the engine's \<open>process\<close>; after each processed frame one
  \<open>vad-result{isSpeech, probability, timestamp}\<close> is emitted; a frame whose processing
  raises is reported for that frame only and the following frames are still processed.\<close>

fun processQueue :: "SileroVAD \<Rightarrow> (real list \<times> real) list \<Rightarrow> queue_event list \<times> SileroVAD" where
  "processQueue v [] = ([], v)"
| "processQueue v ((frame, ts) # queue) =
     (case process v frame ts of
        Inl (e, v1) \<Rightarrow> processQueue v1 queue
      | Inr (r, inferred, evs, v1) \<Rightarrow>
          (map engine_event evs
             @ [vad_result \<lparr> vr_isSpeech = res_isSpeech r, vr_probability = res_probability r,
                              vr_timestamp = ts \<rparr>]
             @ fst (processQueue v1 queue),
           snd (processQueue v1 queue)))"

fun vad_results :: "queue_event list \<Rightarrow> VADResultEvent list" where
  "vad_results [] = []"
| "vad_results (engine_event e # es) = vad_results es"
| "vad_results (vad_result r # es) = r # vad_results es"

section \<open>Reset\<close>

text \<open>Claim C6: \<open>reset()\<close> from any engine state leaves the engine in silence with an empty
  frame buffer, an empty sample remainder and the all-zero recurrent state tensor, and a
  second \<open>reset()\<close> changes nothing.\<close>

theorem reset_silence_idempotent:
  "state (reset v) = silence \<and> audioBuffer (reset v) = [] \<and> sampleBuffer (reset v) = []
   \<and> stateTensor (reset v) = Some (replicate (2 * 128) 0) \<and> reset (reset v) = reset v"
  by (simp add: reset_def resetStates_def resetToSilence_def)

section \<open>Facts about the state machine\<close>

lemma endSpeech_events:
  "fst (endSpeech v t p) =
     [speech_end \<lparr> ev_isSpeech = False, ev_probability = p, ev_timestamp = t,
        ev_segment = (if (t - speechStartTime v) * 1000 \<ge> minSpeechDuration (config v)
                      then Some (createSpeechSegment v t) else None) \<rparr>]"
  by (simp add: endSpeech_def Let_def)

lemma endSpeech_state: "state (snd (endSpeech v t p)) = silence"
  by (simp add: endSpeech_def Let_def resetToSilence_def)

lemma example_potential_start_fields:
  "state example_potential_start = potential_start"
  "speechStartTime example_potential_start = 1"
  "potentialSpeechDurationMs example_potential_start = 32"
  "config example_potential_start = config (new_SileroVAD default_config)"
  "lastProbability example_potential_start = 0"
  by (simp_all add: example_potential_start_def updateVADState_def Let_def new_SileroVAD_def
        default_config_def)

lemma new_config_defaults:
  "positiveSpeechThreshold (config (new_SileroVAD default_config)) = 0.3"
  "negativeSpeechThreshold (config (new_SileroVAD default_config)) = 0.25"
  "silenceDuration (config (new_SileroVAD default_config)) = 1400"
  "preSpeechPadDuration (config (new_SileroVAD default_config)) = 800"
  "minSpeechDuration (config (new_SileroVAD default_config)) = 400"
  by (simp_all add: new_SileroVAD_def default_config_def)

lemma example_speaking_fields:
  "state example_speaking = speaking"
  "speechStartTime example_speaking = 1"
  "speechEndCandidateTime example_speaking = 0"
  "config example_speaking = config (new_SileroVAD default_config)"
  "lastProbability example_speaking = 0"
  by (simp_all add: example_speaking_def updateVADState_def Let_def confirmSpeechStart_def
        example_potential_start_fields new_config_defaults)

lemma example_potential_end_fields:
  "state example_potential_end = potential_end"
  "speechStartTime example_potential_end = 1"
  "speechEndCandidateTime example_potential_end = 3"
  "potentialSilenceDurationMs example_potential_end = 32"
  "config example_potential_end = config (new_SileroVAD default_config)"
  "lastProbability example_potential_end = 0"
  by (simp_all add: example_potential_end_def updateVADState_def Let_def
        example_speaking_fields new_config_defaults)

section \<open>Speech start\<close>

text \<open>Claim C1, as amended: in \<open>potential_start\<close>, a step whose probability exceeds
  \<open>positiveSpeechThreshold\<close> and that brings the accumulated potential speech duration to
  \<open>minSpeechDuration\<close> or more enters \<open>speaking\<close>, fixes the cut index and emits exactly one
  speech-start event; the event carries the probability of the current step and the
  timestamp of the current step (not \<open>speechStartTime\<close>, which keeps the timestamp recorded
  when the threshold was first exceeded). The duration added by the step is the duration
  passed to it, or 32 ms (one frame) when that is not positive.\<close>

theorem confirm_speech_start:
  assumes "state v = potential_start"
    and "p > positiveSpeechThreshold (config v)"
    and "potentialSpeechDurationMs v + (if d > 0 then d else 32) \<ge> minSpeechDuration (config v)"
  shows "fst (snd (updateVADState v p ts d)) =
           [speech_start \<lparr> ev_isSpeech = True, ev_probability = p, ev_timestamp = ts,
                            ev_segment = None \<rparr>]
         \<and> state (snd (snd (updateVADState v p ts d))) = speaking
         \<and> fst (updateVADState v p ts d)
         \<and> speechStartTime (snd (snd (updateVADState v p ts d))) = speechStartTime v
         \<and> speechStartBufferIndex (snd (snd (updateVADState v p ts d))) =
             calculateSpeechStartBufferIndex v"
  using assms
  by (cases "d > 0")
     (simp_all add: updateVADState_def Let_def confirmSpeechStart_def frameSize_def
        calculateSpeechStartBufferIndex_def)

theorem confirm_speech_start_witness:
  "state example_potential_start = potential_start
   \<and> 0.8 > positiveSpeechThreshold (config example_potential_start)
   \<and> potentialSpeechDurationMs example_potential_start + 416
        \<ge> minSpeechDuration (config example_potential_start)
   \<and> fst (snd (updateVADState example_potential_start 0.8 2 416)) =
       [speech_start \<lparr> ev_isSpeech = True, ev_probability = 0.8, ev_timestamp = 2,
                        ev_segment = None \<rparr>]
   \<and> state (snd (snd (updateVADState example_potential_start 0.8 2 416))) = speaking
   \<and> speechStartTime (snd (snd (updateVADState example_potential_start 0.8 2 416))) = 1"
  using confirm_speech_start [of example_potential_start "0.8" 416 2]
  by (simp add: example_potential_start_fields new_config_defaults)

text \<open>Claim C1 as stated fails: speech is first seen at timestamp 1 (\<open>speechStartTime = 1\<close>),
  the step at timestamp 2 brings the accumulated duration to 448 ms \<open>\<ge>\<close> 400 ms, and the
  one speech-start event it emits carries timestamp 2, not \<open>speechStartTime\<close>.\<close>

theorem speech_start_timestamp_counterexample:
  "state example_potential_start = potential_start
   \<and> speechStartTime example_potential_start = 1
   \<and> potentialSpeechDurationMs example_potential_start + 416
        \<ge> minSpeechDuration (config example_potential_start)
   \<and> fst (snd (updateVADState example_potential_start 0.8 2 416)) =
       [speech_start \<lparr> ev_isSpeech = True, ev_probability = 0.8, ev_timestamp = 2,
                        ev_segment = None \<rparr>]
   \<and> (2::real) \<noteq> speechStartTime example_potential_start"
  by (simp add: updateVADState_def Let_def confirmSpeechStart_def
        example_potential_start_fields new_config_defaults)

section \<open>Speech end\<close>

text \<open>Claim C4: when a segment is finalized, by confirmed silence in \<open>potential_end\<close> or by
  \<open>flush\<close> in \<open>speaking\<close> or \<open>potential_end\<close>, exactly one speech-end event is emitted, and
  it carries a segment if and only if the time from \<open>speechStartTime\<close> to the end time is at
  least \<open>minSpeechDuration\<close>; otherwise the event is emitted without a segment. The two
  timestamps are in seconds and \<open>minSpeechDuration\<close> is in milliseconds, hence the factor
  1000 of the source. The end time is the silence candidate time (the step's timestamp when
  that is 0), respectively the timestamp given to \<open>flush\<close> (the candidate time when none is
  given).\<close>

theorem speech_end_segment_iff:
  "(state v = potential_end \<and> p < negativeSpeechThreshold (config v)
      \<and> potentialSilenceDurationMs v + (if d > 0 then d else 32) \<ge> silenceDuration (config v) \<longrightarrow>
      (\<exists>e. fst (snd (updateVADState v p ts d)) = [speech_end e]
           \<and> ev_timestamp e = (if speechEndCandidateTime v \<noteq> 0 then speechEndCandidateTime v else ts)
           \<and> (ev_segment e \<noteq> None \<longleftrightarrow>
                (ev_timestamp e - speechStartTime v) * 1000 \<ge> minSpeechDuration (config v))))
   \<and> (state v = speaking \<or> state v = potential_end \<longrightarrow>
      (\<exists>e. fst (flush v t) = [speech_end e]
           \<and> ev_timestamp e = nullish t (speechEndCandidateTime v)
           \<and> (ev_segment e \<noteq> None \<longleftrightarrow>
                (ev_timestamp e - speechStartTime v) * 1000 \<ge> minSpeechDuration (config v))))"
  by (cases t)
     (simp_all add: updateVADState_def Let_def flush_def endSpeech_events frameSize_def
        split_beta)

theorem speech_end_segment_iff_witness:
  "state example_potential_end = potential_end
   \<and> 0.1 < negativeSpeechThreshold (config example_potential_end)
   \<and> potentialSilenceDurationMs example_potential_end + 1400
        \<ge> silenceDuration (config example_potential_end)
   \<and> (\<exists>e. fst (snd (updateVADState example_potential_end 0.1 5 1400)) = [speech_end e]
           \<and> ev_timestamp e = 3 \<and> ev_segment e \<noteq> None)
   \<and> (\<exists>e. fst (flush example_potential_end (Some 1.2)) = [speech_end e]
           \<and> ev_timestamp e = 1.2 \<and> ev_segment e = None)"
  using speech_end_segment_iff [of example_potential_end "0.1" 1400 5 "Some 1.2"]
  by (auto simp add: example_potential_end_fields new_config_defaults)

section \<open>Flush\<close>

text \<open>Claim C8: \<open>flush\<close> in \<open>speaking\<close> or \<open>potential_end\<close> finalizes the segment at once:
  it emits exactly one speech-end event, whose probability is \<open>lastProbability\<close>, the
  probability of the last inferred frame, and the engine is in silence afterwards; in
  \<open>potential_start\<close> it emits nothing, drops the accumulated duration and the recorded start
  time, and the engine is in silence afterwards.\<close>

theorem flush_finalizes:
  "(state v = speaking \<or> state v = potential_end \<longrightarrow>
      fst (flush v ts) =
        [speech_end \<lparr> ev_isSpeech = False, ev_probability = lastProbability v,
           ev_timestamp = nullish ts (speechEndCandidateTime v),
           ev_segment =
             (if (nullish ts (speechEndCandidateTime v) - speechStartTime v) * 1000
                   \<ge> minSpeechDuration (config v)
              then Some (createSpeechSegment v (nullish ts (speechEndCandidateTime v)))
              else None) \<rparr>]
      \<and> state (snd (flush v ts)) = silence)
   \<and> (state v = potential_start \<longrightarrow>
        fst (flush v ts) = [] \<and> state (snd (flush v ts)) = silence
        \<and> potentialSpeechDurationMs (snd (flush v ts)) = 0
        \<and> speechStartTime (snd (flush v ts)) = 0)"
  by (cases ts)
     (simp_all add: flush_def endSpeech_events endSpeech_state resetToSilence_def Let_def)

theorem flush_finalizes_witness:
  "state example_speaking = speaking
   \<and> fst (flush example_speaking (Some 1.2)) =
        [speech_end \<lparr> ev_isSpeech = False, ev_probability = lastProbability example_speaking,
           ev_timestamp = 1.2, ev_segment = None \<rparr>]
   \<and> state (snd (flush example_speaking (Some 1.2))) = silence
   \<and> state example_potential_start = potential_start
   \<and> fst (flush example_potential_start None) = []
   \<and> state (snd (flush example_potential_start None)) = silence
   \<and> potentialSpeechDurationMs (snd (flush example_potential_start None)) = 0"
  using flush_finalizes [of example_speaking "Some 1.2"]
    flush_finalizes [of example_potential_start None]
  by (simp add: example_speaking_fields example_potential_start_fields new_config_defaults)

section \<open>Configuration update\<close>

text \<open>Claim C7, as amended: \<open>updateConfig\<close> never rejects an update. It stores every
  threshold it is given, whatever its value and whatever the other threshold is, and it
  changes nothing but the configuration.\<close>

theorem updateConfig_stores_thresholds:
  "positiveSpeechThreshold (config (updateConfig v (upd\<lparr>opt_positiveSpeechThreshold := Some x\<rparr>))) = x
   \<and> negativeSpeechThreshold (config (updateConfig v (upd\<lparr>opt_negativeSpeechThreshold := Some y\<rparr>))) = y
   \<and> positiveSpeechThreshold (config (updateConfig v
        (upd\<lparr>opt_positiveSpeechThreshold := Some x, opt_negativeSpeechThreshold := Some y\<rparr>))) = x
   \<and> negativeSpeechThreshold (config (updateConfig v
        (upd\<lparr>opt_positiveSpeechThreshold := Some x, opt_negativeSpeechThreshold := Some y\<rparr>))) = y
   \<and> (updateConfig v upd)\<lparr>config := config v\<rparr> = v"
  by (simp add: updateConfig_def)

text \<open>Claim C7 as stated fails: on a new engine with the default thresholds 0.3 and 0.25, an
  update setting \<open>positiveSpeechThreshold = 2\<close> (outside [0,1]) and
  \<open>negativeSpeechThreshold = 3\<close> (not below the positive one) is stored, and the stored
  configuration is no longer the one before the update.\<close>

theorem updateConfig_rejects_counterexample:
  "positiveSpeechThreshold (config (updateConfig (new_SileroVAD default_config)
       (default_config\<lparr>opt_positiveSpeechThreshold := Some 2,
                        opt_negativeSpeechThreshold := Some 3\<rparr>))) = 2
   \<and> negativeSpeechThreshold (config (updateConfig (new_SileroVAD default_config)
       (default_config\<lparr>opt_positiveSpeechThreshold := Some 2,
                        opt_negativeSpeechThreshold := Some 3\<rparr>))) = 3
   \<and> config (updateConfig (new_SileroVAD default_config)
       (default_config\<lparr>opt_positiveSpeechThreshold := Some 2,
                        opt_negativeSpeechThreshold := Some 3\<rparr>))
      \<noteq> config (new_SileroVAD default_config)"
  by (simp add: updateConfig_def new_SileroVAD_def default_config_def)

section \<open>Facts about the segment assembler\<close>

lemma foldl_length_sum:
  "foldl (\<lambda>s chunk. s + length chunk) n cs = n + length (concat cs)"
  by (induction cs arbitrary: n) simp_all

lemma typed_set_fits:
  "off + length source \<le> length target \<Longrightarrow>
     typed_set target source off = take off target @ source @ drop (off + length source) target"
  by (simp add: typed_set_def)

lemma merge_chunks_concat:
  "off + length (concat cs) \<le> length audio \<Longrightarrow>
     merge_chunks cs audio off =
       take off audio @ concat cs @ drop (off + length (concat cs)) audio"
proof (induction cs arbitrary: audio off)
  case Nil
  then show ?case by simp
next
  case (Cons c cs)
  have fit: "off + length c \<le> length audio" using Cons.prems by simp
  let ?a = "typed_set audio c off"
  have a: "?a = take off audio @ c @ drop (off + length c) audio"
    using fit by (rule typed_set_fits)
  have len: "length ?a = length audio" using fit by (simp add: a)
  have "merge_chunks cs ?a (off + length c) =
          take (off + length c) ?a @ concat cs @ drop (off + length c + length (concat cs)) ?a"
    using Cons.prems by (intro Cons.IH) (simp add: len)
  moreover have "take (off + length c) ?a = take off audio @ c"
    using fit by (simp add: a)
  moreover have "drop (off + length c + length (concat cs)) ?a =
                   drop (off + length c + length (concat cs)) audio"
    using fit by (simp add: a add.commute)
  ultimately show ?case by (simp add: add.assoc)
qed

lemma createSpeechSegment_audio:
  "seg_audioData (createSpeechSegment v endTime) =
     concat (slice_from (speechStartBufferIndex v) (audioBuffer v))"
  by (simp add: createSpeechSegment_def Let_def foldl_length_sum merge_chunks_concat)

lemma slice_from_nonneg: "0 \<le> i \<Longrightarrow> slice_from i xs = drop (nat i) xs"
  by (simp add: slice_from_def min_def)

section \<open>Facts about the frame loop and \<open>process\<close>\<close>

lemma processFrame_Inr:
  "processFrame v f = Inr (p, v1) \<Longrightarrow> \<exists>t. v1 = v\<lparr>stateTensor := Some t\<rparr>"
  by (auto simp: processFrame_def split: option.splits)


lemma processFrame_initialized:
  "session v \<noteq> None \<Longrightarrow> stateTensor v \<noteq> None \<Longrightarrow> \<exists>p v1. processFrame v f = Inr (p, v1)"
  by (auto simp: processFrame_def split: option.splits)

lemma process_loop_stop:
  "\<not> off + frameSize \<le> length c \<Longrightarrow>
     process_loop c off tp fc acc v = Inr (off, tp, fc, acc, v)"
  by (simp add: process_loop.simps)

lemma process_loop_step:
  "off + frameSize \<le> length c \<Longrightarrow>
     process_loop c off tp fc acc v =
       (case processFrame v (slice_range c off (off + frameSize)) of
          Inl e \<Rightarrow> Inl e
        | Inr (p, v1) \<Rightarrow>
            process_loop c (off + frameSize) (tp + p) (fc + 1)
              (acc @ [(slice_range c off (off + frameSize), p)]) (v1\<lparr>lastProbability := p\<rparr>))"
  by (subst process_loop.simps) (simp add: Let_def)

lemma slice_range_frame:
  "off + n \<le> length c \<Longrightarrow>
     length (slice_range c off (off + n)) = n
     \<and> slice_range c off (off + n) @ drop (off + n) c = drop off c"
  by (simp add: slice_range_def) (metis add.commute append_take_drop_id drop_drop)

text \<open>What a returning loop has done.\<close>

lemma process_loop_Inr:
  "process_loop c off tp fc acc v = Inr (off', tp', fc', acc', v') \<Longrightarrow>
     (\<exists>new. acc' = acc @ new \<and> fc' = fc + length new \<and> tp' = tp + sum_list (map snd new)
        \<and> list_all (\<lambda>f. length f = frameSize) (map fst new)
        \<and> concat (map fst new) @ drop off' c = drop off c
        \<and> lastProbability v' = (if new = [] then lastProbability v else snd (last new)))
     \<and> \<not> off' + frameSize \<le> length c
     \<and> machine_fields v' = machine_fields v \<and> audioBuffer v' = audioBuffer v
     \<and> sampleBuffer v' = sampleBuffer v \<and> session v' = session v
     \<and> lastTimestamp v' = lastTimestamp v
     \<and> (stateTensor v \<noteq> None \<longrightarrow> stateTensor v' \<noteq> None)"
proof (induction c off tp fc acc v rule: process_loop.induct)
  case (1 c off tp fc acc v)
  show ?case
  proof (cases "off + frameSize \<le> length c")
    case False
    with "1.prems" show ?thesis by (simp add: process_loop_stop)
  next
    case True
    let ?frame = "slice_range c off (off + frameSize)"
    from "1.prems" True obtain p v1 where
      pf: "processFrame v ?frame = Inr (p, v1)"
      and rec: "process_loop c (off + frameSize) (tp + p) (fc + 1) (acc @ [(?frame, p)])
                  (v1\<lparr>lastProbability := p\<rparr>) = Inr (off', tp', fc', acc', v')"
      by (auto simp: process_loop_step split: sum.splits)
    from processFrame_Inr [OF pf] obtain t where
      v1: "v1 = v\<lparr>stateTensor := Some t\<rparr>" by blast
    from "1.IH" [OF True refl pf refl rec] obtain new where
      new: "acc' = (acc @ [(?frame, p)]) @ new" "fc' = fc + 1 + length new"
        "tp' = tp + p + sum_list (map snd new)"
        "list_all (\<lambda>f. length f = frameSize) (map fst new)"
        "concat (map fst new) @ drop off' c = drop (off + frameSize) c"
        "lastProbability v' = (if new = [] then p else snd (last new))"
      and rest: "\<not> off' + frameSize \<le> length c"
        "machine_fields v' = machine_fields (v1\<lparr>lastProbability := p\<rparr>)"
        "audioBuffer v' = audioBuffer (v1\<lparr>lastProbability := p\<rparr>)"
        "sampleBuffer v' = sampleBuffer (v1\<lparr>lastProbability := p\<rparr>)"
        "session v' = session (v1\<lparr>lastProbability := p\<rparr>)"
        "lastTimestamp v' = lastTimestamp (v1\<lparr>lastProbability := p\<rparr>)"
        "stateTensor v' \<noteq> None"
      by (auto simp: v1)
    let ?new = "(?frame, p) # new"
    have "acc' = acc @ ?new" "fc' = fc + length ?new" "tp' = tp + sum_list (map snd ?new)"
      using new by simp_all
    moreover have "list_all (\<lambda>f. length f = frameSize) (map fst ?new)"
      using new(4) slice_range_frame [OF True] by simp
    moreover have "concat (map fst ?new) @ drop off' c = drop off c"
      using new(5) slice_range_frame [OF True] by simp
    moreover have "lastProbability v' = (if ?new = [] then lastProbability v else snd (last ?new))"
      using new(6) by simp
    ultimately have "\<exists>new. acc' = acc @ new \<and> fc' = fc + length new
        \<and> tp' = tp + sum_list (map snd new)
        \<and> list_all (\<lambda>f. length f = frameSize) (map fst new)
        \<and> concat (map fst new) @ drop off' c = drop off c
        \<and> lastProbability v' = (if new = [] then lastProbability v else snd (last new))"
      by blast
    with rest show ?thesis by (simp add: v1 machine_fields_def)
  qed
qed


lemma process_loop_initialized:
  "session v \<noteq> None \<Longrightarrow> stateTensor v \<noteq> None \<Longrightarrow>
     \<exists>res. process_loop c off tp fc acc v = Inr res"
proof (induction c off tp fc acc v rule: process_loop.induct)
  case (1 c off tp fc acc v)
  show ?case
  proof (cases "off + frameSize \<le> length c")
    case False
    then show ?thesis by (simp add: process_loop_stop)
  next
    case True
    let ?frame = "slice_range c off (off + frameSize)"
    from processFrame_initialized [OF "1.prems"] obtain p v1 where
      pf: "processFrame v ?frame = Inr (p, v1)" by blast
    from processFrame_Inr [OF pf] obtain t where
      v1: "v1 = v\<lparr>stateTensor := Some t\<rparr>" by blast
    have "\<exists>res. process_loop c (off + frameSize) (tp + p) (fc + 1) (acc @ [(?frame, p)])
                  (v1\<lparr>lastProbability := p\<rparr>) = Inr res"
      using "1.prems" by (intro "1.IH" [OF True refl pf refl]) (simp_all add: v1)
    then show ?thesis using True pf by (simp add: process_loop_step)
  qed
qed

lemma typed_set_combined:
  "typed_set (typed_set (replicate (length a + length b) 0) a 0) b (length a) = a @ b"
  by (simp add: typed_set_def)

lemma limit_buffer_fields:
  "machine_fields (limit_buffer v a) = machine_fields v"
  "sampleBuffer (limit_buffer v a) = sampleBuffer v"
  "session (limit_buffer v a) = session v"
  "stateTensor (limit_buffer v a) = stateTensor v"
  "lastProbability (limit_buffer v a) = lastProbability v"
  "lastTimestamp (limit_buffer v a) = lastTimestamp v"
  by (simp_all add: limit_buffer_def machine_fields_def Let_def)

lemma updateVADState_keeps:
  "sampleBuffer (snd (snd (updateVADState v p ts d))) = sampleBuffer v"
  "session (snd (snd (updateVADState v p ts d))) = session v"
  "stateTensor (snd (snd (updateVADState v p ts d))) = stateTensor v"
  "lastProbability (snd (snd (updateVADState v p ts d))) = lastProbability v"
  "lastTimestamp (snd (snd (updateVADState v p ts d))) = lastTimestamp v"
  by (cases "state v";
      simp add: updateVADState_def Let_def split_beta confirmSpeechStart_def endSpeech_def
        resetToSilence_def)+



lemma process_unfold:
  "process v a ts =
     (case process_loop (sampleBuffer v @ a) 0 0 0 []
             (limit_buffer (v\<lparr>lastTimestamp := ts, audioBuffer := audioBuffer v @ [a]\<rparr>) a) of
        Inl e \<Rightarrow> Inl e
      | Inr (off, tp, fc, inferred, v4) \<Rightarrow>
          Inr (\<lparr> res_isSpeech =
                   fst (updateVADState (v4\<lparr>sampleBuffer := drop off (sampleBuffer v @ a)\<rparr>)
                          (if fc > 0 then tp / real fc else lastProbability v4) ts
                          (if fc > 0 then real fc * 32 else (real (length a) / 16000) * 1000)),
                 res_probability = (if fc > 0 then tp / real fc else lastProbability v4) \<rparr>,
               inferred,
               fst (snd (updateVADState (v4\<lparr>sampleBuffer := drop off (sampleBuffer v @ a)\<rparr>)
                          (if fc > 0 then tp / real fc else lastProbability v4) ts
                          (if fc > 0 then real fc * 32 else (real (length a) / 16000) * 1000))),
               snd (snd (updateVADState (v4\<lparr>sampleBuffer := drop off (sampleBuffer v @ a)\<rparr>)
                          (if fc > 0 then tp / real fc else lastProbability v4) ts
                          (if fc > 0 then real fc * 32 else (real (length a) / 16000) * 1000)))))"
proof -
  have drop_all: "\<And>off c::real list. (if off < length c then drop off c else []) = drop off c"
    by simp
  show ?thesis
    unfolding process_def Let_def drop_all
    by (simp add: typed_set_combined limit_buffer_fields frameSize_def del: drop_append
          split: sum.split prod.split)
qed


text \<open>What a returning call of \<open>process\<close> has done: \<open>vm\<close> is the engine handed to the one
  call of \<open>updateVADState\<close>.\<close>

lemma process_Inr:
  assumes "process v a ts = Inr (r, inferred, evs, v')"
  shows "\<exists>vm. machine_fields vm = machine_fields v
           \<and> audioBuffer vm =
               audioBuffer (limit_buffer (v\<lparr>lastTimestamp := ts, audioBuffer := audioBuffer v @ [a]\<rparr>) a)
           \<and> concat (map fst inferred) @ sampleBuffer vm = sampleBuffer v @ a
           \<and> list_all (\<lambda>f. length f = frameSize) (map fst inferred)
           \<and> length (sampleBuffer vm) < frameSize
           \<and> session vm = session v
           \<and> (stateTensor v \<noteq> None \<longrightarrow> stateTensor vm \<noteq> None)
           \<and> lastProbability vm = (if inferred = [] then lastProbability v else snd (last inferred))
           \<and> res_probability r =
               (if inferred = [] then lastProbability v
                else sum_list (map snd inferred) / real (length inferred))
           \<and> (res_isSpeech r, evs, v') =
               updateVADState vm (res_probability r) ts
                 (if inferred = [] then (real (length a) / 16000) * 1000
                  else real (length inferred) * 32)"
proof -
  let ?v3 = "limit_buffer (v\<lparr>lastTimestamp := ts, audioBuffer := audioBuffer v @ [a]\<rparr>) a"
  let ?c = "sampleBuffer v @ a"
  from assms obtain off tp fc v4 where
    loop: "process_loop ?c 0 0 0 [] ?v3 = Inr (off, tp, fc, inferred, v4)"
    by (cases "process_loop ?c 0 0 0 [] ?v3") (auto simp: process_unfold)
  define vm where "vm = v4\<lparr>sampleBuffer := drop off ?c\<rparr>"
  define pf where "pf = (if fc > 0 then tp / real fc else lastProbability v4)"
  define df where "df = (if fc > 0 then real fc * 32 else (real (length a) / 16000) * 1000)"
  from assms loop have res:
    "res_isSpeech r = fst (updateVADState vm pf ts df)" "res_probability r = pf"
    "evs = fst (snd (updateVADState vm pf ts df))"
    "v' = snd (snd (updateVADState vm pf ts df))"
    by (auto simp: process_unfold vm_def pf_def df_def)
  from process_loop_Inr [OF loop] have facts:
    "fc = length inferred" "tp = sum_list (map snd inferred)"
    "list_all (\<lambda>f. length f = frameSize) (map fst inferred)"
    "concat (map fst inferred) @ drop off ?c = ?c"
    "lastProbability v4 = (if inferred = [] then lastProbability ?v3 else snd (last inferred))"
    "\<not> off + frameSize \<le> length ?c"
    "machine_fields v4 = machine_fields ?v3" "audioBuffer v4 = audioBuffer ?v3"
    "session v4 = session ?v3" "stateTensor ?v3 \<noteq> None \<longrightarrow> stateTensor v4 \<noteq> None"
    by auto
  have "machine_fields vm = machine_fields v4"
    by (simp add: vm_def machine_fields_def)
  moreover have "machine_fields
      (v\<lparr>lastTimestamp := ts, audioBuffer := audioBuffer v @ [a]\<rparr>) = machine_fields v"
    by (simp add: machine_fields_def)
  ultimately have 1: "machine_fields vm = machine_fields v"
    using facts(7) by (simp add: limit_buffer_fields)
  have 2: "audioBuffer vm = audioBuffer ?v3" using facts(8) by (simp add: vm_def)
  have 3: "concat (map fst inferred) @ sampleBuffer vm = ?c"
    using facts(4) by (simp add: vm_def del: drop_append)
  have 4: "length (sampleBuffer vm) < frameSize"
    using facts(6) by (simp add: vm_def frameSize_def del: drop_append)
  have 5: "session vm = session v" using facts(9) by (simp add: vm_def limit_buffer_fields)
  have 6: "stateTensor v \<noteq> None \<longrightarrow> stateTensor vm \<noteq> None"
    using facts(10) by (simp add: vm_def limit_buffer_fields)
  have 7: "lastProbability vm = (if inferred = [] then lastProbability v else snd (last inferred))"
    using facts(5) by (simp add: vm_def limit_buffer_fields)
  have 8: "pf = (if inferred = [] then lastProbability v
                else sum_list (map snd inferred) / real (length inferred))"
    using facts(1,2,5) by (simp add: pf_def limit_buffer_fields)
  have 9: "df = (if inferred = [] then (real (length a) / 16000) * 1000
                  else real (length inferred) * 32)"
    using facts(1) by (simp add: df_def)
  have 10: "(res_isSpeech r, evs, v') = updateVADState vm (res_probability r) ts df"
    by (simp add: res)
  show ?thesis
    apply (rule exI [of _ vm])
    using 1 2 3 4 5 6 7 facts(3) 8 10 unfolding 9 res(2) by simp
qed

lemma process_initialized:
  assumes "session v \<noteq> None" "stateTensor v \<noteq> None"
  shows "\<exists>r inferred evs v'. process v a ts = Inr (r, inferred, evs, v')"
proof -
  let ?v3 = "limit_buffer (v\<lparr>lastTimestamp := ts, audioBuffer := audioBuffer v @ [a]\<rparr>) a"
  have "session ?v3 \<noteq> None" "stateTensor ?v3 \<noteq> None"
    using assms by (simp_all add: limit_buffer_fields)
  from process_loop_initialized [OF this, of "sampleBuffer v @ a" 0 0 0 "[]"]
  obtain off tp fc inferred v4 where
    "process_loop (sampleBuffer v @ a) 0 0 0 [] ?v3 = Inr (off, tp, fc, inferred, v4)"
    by (metis prod_cases5)
  then show ?thesis by (simp add: process_unfold)
qed

lemma process_Inr_initialized:
  assumes "process v a ts = Inr (r, inferred, evs, v')"
    and "session v \<noteq> None" "stateTensor v \<noteq> None"
  shows "session v' \<noteq> None \<and> stateTensor v' \<noteq> None"
proof -
  from process_Inr [OF assms(1)] obtain vm d where
    vm: "session vm = session v" "stateTensor v \<noteq> None \<longrightarrow> stateTensor vm \<noteq> None"
    "(res_isSpeech r, evs, v') = updateVADState vm (res_probability r) ts d"
    by blast
  from vm(3) have "v' = snd (snd (updateVADState vm (res_probability r) ts d))"
    by (metis snd_conv)
  then show ?thesis using assms(2,3) vm(1,2) by (simp add: updateVADState_keeps)
qed

lemma process_Inr_sampleBuffer:
  assumes "process v a ts = Inr (r, inferred, evs, v')"
  shows "concat (map fst inferred) @ sampleBuffer v' = sampleBuffer v @ a
         \<and> list_all (\<lambda>f. length f = frameSize) (map fst inferred)
         \<and> length (sampleBuffer v') < frameSize"
proof -
  from process_Inr [OF assms] obtain vm d where
    vm: "concat (map fst inferred) @ sampleBuffer vm = sampleBuffer v @ a"
    "list_all (\<lambda>f. length f = frameSize) (map fst inferred)"
    "length (sampleBuffer vm) < frameSize"
    "(res_isSpeech r, evs, v') = updateVADState vm (res_probability r) ts d"
    by blast
  from vm(4) have "v' = snd (snd (updateVADState vm (res_probability r) ts d))"
    by (metis snd_conv)
  then show ?thesis using vm(1,2,3) by (simp add: updateVADState_keeps)
qed

text \<open>The equations that evaluate a run on concrete chunks.\<close>

lemmas run_simps = process_unfold initialize_def resetStates_def new_SileroVAD_def
      default_config_def limit_buffer_def Let_def process_loop.simps frameSize_def
      processFrame_def first_sample_model_def slice_range_def updateVADState_def
      confirmSpeechStart_def calculateSpeechStartBufferIndex_def endSpeech_def
      resetToSilence_def slice_from_def split_beta createSpeechSegment_def
      foldl_length_sum merge_chunks_concat

section \<open>Frame reassembly\<close>

lemma process_short:
  assumes "length (sampleBuffer v) + length a < frameSize"
  shows "\<exists>r evs v'. process v a ts = Inr (r, [], evs, v') \<and> sampleBuffer v' = sampleBuffer v @ a"
proof -
  let ?v3 = "limit_buffer (v\<lparr>lastTimestamp := ts, audioBuffer := audioBuffer v @ [a]\<rparr>) a"
  have "process_loop (sampleBuffer v @ a) 0 0 0 [] ?v3 = Inr (0, 0, 0, [], ?v3)"
    using assms by (intro process_loop_stop) simp
  then have "process v a ts =
      Inr (\<lparr> res_isSpeech = fst (updateVADState (?v3\<lparr>sampleBuffer := sampleBuffer v @ a\<rparr>)
                                  (lastProbability ?v3) ts ((real (length a) / 16000) * 1000)),
              res_probability = lastProbability ?v3 \<rparr>, [],
           fst (snd (updateVADState (?v3\<lparr>sampleBuffer := sampleBuffer v @ a\<rparr>)
                                  (lastProbability ?v3) ts ((real (length a) / 16000) * 1000))),
           snd (snd (updateVADState (?v3\<lparr>sampleBuffer := sampleBuffer v @ a\<rparr>)
                                  (lastProbability ?v3) ts ((real (length a) / 16000) * 1000))))"
    by (simp add: process_unfold)
  moreover have "sampleBuffer (snd (snd (updateVADState (?v3\<lparr>sampleBuffer := sampleBuffer v @ a\<rparr>)
                                  (lastProbability ?v3) ts ((real (length a) / 16000) * 1000))))
                 = sampleBuffer v @ a"
    by (simp add: updateVADState_keeps)
  ultimately show ?thesis by blast
qed

lemma process_all_Inr:
  "process_all v chunks = Inr (inferred, evs, v') \<Longrightarrow>
     concat (map fst inferred) @ sampleBuffer v' = sampleBuffer v @ concat (map fst chunks)
     \<and> list_all (\<lambda>f. length f = frameSize) (map fst inferred)
     \<and> (chunks \<noteq> [] \<longrightarrow> length (sampleBuffer v') < frameSize)"
proof (induction chunks arbitrary: v inferred evs v')
  case Nil
  then show ?case by simp
next
  case (Cons ch rest)
  obtain a ts where ch: "ch = (a, ts)" by (cases ch)
  from Cons.prems obtain r inf1 evs1 v1 inf2 evs2 where
    p1: "process v a ts = Inr (r, inf1, evs1, v1)"
    and p2: "process_all v1 rest = Inr (inf2, evs2, v')"
    and eqs: "inferred = inf1 @ inf2"
    by (auto simp: ch split: sum.splits)
  note f1 = process_Inr_sampleBuffer [OF p1]
  note f2 = Cons.IH [OF p2]
  have "concat (map fst inferred) @ sampleBuffer v' =
          concat (map fst inf1) @ (concat (map fst inf2) @ sampleBuffer v')"
    by (simp add: eqs)
  also have "\<dots> = concat (map fst inf1) @ sampleBuffer v1 @ concat (map fst rest)"
    using f2 by simp
  also have "\<dots> = sampleBuffer v @ concat (map fst (ch # rest))"
    using f1 by (simp add: ch)
  finally have a: "concat (map fst inferred) @ sampleBuffer v' =
                     sampleBuffer v @ concat (map fst (ch # rest))" .
  have b: "list_all (\<lambda>f. length f = frameSize) (map fst inferred)"
    using f1 f2 by (simp add: eqs)
  have c: "length (sampleBuffer v') < frameSize"
  proof (cases rest)
    case Nil
    with p2 f1 show ?thesis by simp
  next
    case (Cons x xs)
    with f2 show ?thesis by simp
  qed
  from a b c show ?case by simp
qed

lemma process_all_initialized:
  "session v \<noteq> None \<Longrightarrow> stateTensor v \<noteq> None \<Longrightarrow>
     \<exists>inferred evs v'. process_all v chunks = Inr (inferred, evs, v')"
proof (induction chunks arbitrary: v)
  case Nil
  then show ?case by simp
next
  case (Cons ch rest)
  obtain a ts where ch: "ch = (a, ts)" by (cases ch)
  from process_initialized [OF Cons.prems] obtain r inf1 evs1 v1 where
    p1: "process v a ts = Inr (r, inf1, evs1, v1)" by blast
  from process_Inr_initialized [OF p1 Cons.prems] have
    "session v1 \<noteq> None" "stateTensor v1 \<noteq> None" by simp_all
  from Cons.IH [OF this] obtain inf2 evs2 v2 where
    "process_all v1 rest = Inr (inf2, evs2, v2)" by blast
  with p1 show ?case by (simp add: ch)
qed

text \<open>Claim C2: for every initial remainder and every sequence of chunks fed to \<open>process\<close>
  in order, once the calls have returned, the frames handed to inference, concatenated in
  call order and followed by the remainder stored after the last call, are the initial
  remainder followed by all the chunks in order; every such frame has 512 samples, and after
  at least one call the remainder is shorter than 512. On an initialised engine every call
  returns. A chunk that leaves fewer than 512 accumulated samples yields no frame, and the
  new remainder is the old one followed by the chunk.\<close>

theorem frame_reassembly_roundtrip:
  "(process_all v chunks = Inr (inferred, evs, v') \<longrightarrow>
      concat (map fst inferred) @ sampleBuffer v' = sampleBuffer v @ concat (map fst chunks)
      \<and> list_all (\<lambda>f. length f = frameSize) (map fst inferred)
      \<and> (chunks \<noteq> [] \<longrightarrow> length (sampleBuffer v') < frameSize))
   \<and> (session v \<noteq> None \<and> stateTensor v \<noteq> None \<longrightarrow>
        (\<exists>inferred evs v'. process_all v chunks = Inr (inferred, evs, v')))
   \<and> (length (sampleBuffer v) + length a < frameSize \<longrightarrow>
        (\<exists>r evs v'. process v a ts = Inr (r, [], evs, v')
            \<and> sampleBuffer v' = sampleBuffer v @ a))"
  using process_all_Inr [of v chunks inferred evs v'] process_all_initialized [of v chunks]
    process_short [of v a ts]
  by blast

theorem frame_reassembly_roundtrip_witness:
  "process_all (short_engine\<lparr>sampleBuffer := [0.5, 0.5]\<rparr>)
       [(replicate 300 0.1, 0), (replicate 300 0.2, 0.02)] =
     Inr ([(0.5 # 0.5 # replicate 300 0.1 @ replicate 210 0.2, 0.5)], [],
          short_engine\<lparr> state := potential_start,
            audioBuffer := [replicate 300 0.1, replicate 300 0.2],
            speechStartTime := 0.02, potentialSpeechDurationMs := 32,
            sampleBuffer := replicate 90 0.2, lastProbability := 0.5, lastTimestamp := 0.02 \<rparr>)
   \<and> session (short_engine\<lparr>sampleBuffer := [0.5, 0.5]\<rparr>) \<noteq> None
   \<and> stateTensor (short_engine\<lparr>sampleBuffer := [0.5, 0.5]\<rparr>) \<noteq> None
   \<and> length (sampleBuffer (short_engine\<lparr>sampleBuffer := [0.5, 0.5]\<rparr>)) + length (replicate 300 (0.1::real))
        < frameSize
   \<and> concat (map fst [(0.5 # 0.5 # replicate 300 0.1 @ replicate 210 0.2, 0.5::real)])
        @ replicate 90 (0.2::real)
      = [0.5, 0.5] @ concat (map fst [(replicate 300 (0.1::real), 0::real), (replicate 300 0.2, 0.02)])
   \<and> (\<exists>r evs v'. process (short_engine\<lparr>sampleBuffer := [0.5, 0.5]\<rparr>) (replicate 300 0.1) 0
                     = Inr (r, [], evs, v')
           \<and> sampleBuffer v' = [0.5, 0.5] @ replicate 300 0.1)"
proof -
  have run: "process_all (short_engine\<lparr>sampleBuffer := [0.5, 0.5]\<rparr>)
       [(replicate 300 0.1, 0), (replicate 300 0.2, 0.02)] =
     Inr ([(0.5 # 0.5 # replicate 300 0.1 @ replicate 210 0.2, 0.5)], [],
          short_engine\<lparr> state := potential_start,
            audioBuffer := [replicate 300 0.1, replicate 300 0.2],
            speechStartTime := 0.02, potentialSpeechDurationMs := 32,
            sampleBuffer := replicate 90 0.2, lastProbability := 0.5, lastTimestamp := 0.02 \<rparr>)"
    by (simp add: run_simps short_engine_def short_config_def)
  have init: "session (short_engine\<lparr>sampleBuffer := [0.5, 0.5]\<rparr>) \<noteq> None"
    "stateTensor (short_engine\<lparr>sampleBuffer := [0.5, 0.5]\<rparr>) \<noteq> None"
    by (simp_all add: short_engine_def initialize_def resetStates_def)
  have short: "length (sampleBuffer (short_engine\<lparr>sampleBuffer := [0.5, 0.5]\<rparr>))
                 + length (replicate 300 (0.1::real)) < frameSize"
    by (simp add: frameSize_def)
  show ?thesis
    using frame_reassembly_roundtrip [of "short_engine\<lparr>sampleBuffer := [0.5, 0.5]\<rparr>"
        "[(replicate 300 0.1, 0), (replicate 300 0.2, 0.02)]"
        "[(0.5 # 0.5 # replicate 300 0.1 @ replicate 210 0.2, 0.5)]" "[]"
        "short_engine\<lparr> state := potential_start,
            audioBuffer := [replicate 300 0.1, replicate 300 0.2],
            speechStartTime := 0.02, potentialSpeechDurationMs := 32,
            sampleBuffer := replicate 90 0.2, lastProbability := 0.5, lastTimestamp := 0.02 \<rparr>"
        "replicate 300 0.1" 0]
      run init short
    by simp
qed

section \<open>Buffer pruning in silence\<close>














section \<open>The segment payload\<close>

text \<open>Claim C5, as amended: when \<open>endSpeech\<close> finalizes with a segment, the segment's
  samples are the concatenation, in order, of the buffered chunks from the cut index
  \<open>speechStartBufferIndex\<close> to the end of the buffer; its duration is the number of those
  samples divided by 16000, in milliseconds; its end is the end time; and its start is the
  end time minus the number of samples divided by 16000 seconds, but never below 0
  (\<open>Math.max(0, ...)\<close>).\<close>

theorem segment_payload:
  assumes "(t - speechStartTime v) * 1000 \<ge> minSpeechDuration (config v)"
    and "0 \<le> speechStartBufferIndex v"
  shows "\<exists>seg. fst (endSpeech v t p) =
             [speech_end \<lparr> ev_isSpeech = False, ev_probability = p, ev_timestamp = t,
                ev_segment = Some seg \<rparr>]
           \<and> seg_audioData seg = concat (drop (nat (speechStartBufferIndex v)) (audioBuffer v))
           \<and> seg_duration seg = (real (length (seg_audioData seg)) / 16000) * 1000
           \<and> seg_end seg = t
           \<and> seg_start seg = max 0 (t - real (length (seg_audioData seg)) / 16000)"
  using assms
  by (simp add: endSpeech_events createSpeechSegment_audio slice_from_nonneg)
     (simp add: createSpeechSegment_def Let_def foldl_length_sum slice_from_nonneg)

lemma short_run_potential_end:
  "engine_after_all (process_all short_engine (butlast short_run)) =
     short_engine\<lparr> state := potential_end,
        audioBuffer := [replicate 512 0.9, replicate 512 0.9, replicate 512 0],
        speechEndCandidateTime := 0.064, potentialSilenceDurationMs := 32,
        lastTimestamp := 0.064 \<rparr>"
  by (simp add: run_simps short_engine_def short_config_def short_run_def
        engine_after_all_def)

lemma short_engine_fields:
  "speechStartTime short_engine = 0" "speechStartBufferIndex short_engine = 0"
  "minSpeechDuration (config short_engine) = 32"
  by (simp_all add: short_engine_def short_config_def initialize_def resetStates_def
        new_SileroVAD_def default_config_def)

theorem segment_payload_witness:
  "(0.5 - speechStartTime (engine_after_all (process_all short_engine (butlast short_run)))) * 1000
      \<ge> minSpeechDuration (config (engine_after_all (process_all short_engine (butlast short_run))))
   \<and> 0 \<le> speechStartBufferIndex (engine_after_all (process_all short_engine (butlast short_run)))
   \<and> (\<exists>seg. fst (endSpeech (engine_after_all (process_all short_engine (butlast short_run))) 0.5 0) =
             [speech_end \<lparr> ev_isSpeech = False, ev_probability = 0, ev_timestamp = 0.5,
                ev_segment = Some seg \<rparr>]
           \<and> seg_audioData seg = replicate 512 0.9 @ replicate 512 0.9 @ replicate 512 0
           \<and> seg_duration seg = 96
           \<and> seg_end seg = 0.5
           \<and> seg_start seg = 0.404)"
proof -
  let ?v = "engine_after_all (process_all short_engine (butlast short_run))"
  have h1: "(0.5 - speechStartTime ?v) * 1000 \<ge> minSpeechDuration (config ?v)"
    by (simp add: short_run_potential_end short_engine_fields)
  have h2: "0 \<le> speechStartBufferIndex ?v"
    by (simp add: short_run_potential_end short_engine_fields)
  have idx: "nat (speechStartBufferIndex ?v) = 0"
    by (simp add: short_run_potential_end short_engine_fields)
  have buf: "audioBuffer ?v = [replicate 512 0.9, replicate 512 0.9, replicate 512 0]"
    by (simp add: short_run_potential_end)
  from segment_payload [OF h1 h2, of 0] obtain seg where
    ev: "fst (endSpeech ?v 0.5 0) =
           [speech_end \<lparr> ev_isSpeech = False, ev_probability = 0, ev_timestamp = 0.5,
              ev_segment = Some seg \<rparr>]"
    and seg: "seg_audioData seg = concat (drop (nat (speechStartBufferIndex ?v)) (audioBuffer ?v))"
      "seg_duration seg = (real (length (seg_audioData seg)) / 16000) * 1000"
      "seg_end seg = 0.5"
      "seg_start seg = max 0 (0.5 - real (length (seg_audioData seg)) / 16000)"
    by blast
  have a: "seg_audioData seg = replicate 512 0.9 @ replicate 512 0.9 @ replicate 512 0"
    using seg(1) by (simp add: idx buf)
  have "seg_duration seg = 96" "seg_start seg = 0.404"
    using seg(2,4) by (simp_all add: a)
  with h1 h2 ev a seg(3) show ?thesis by blast
qed

text \<open>Claim C5 as stated fails: speech starts with the first chunk at timestamp 0 and the
  silence candidate is recorded at 0.064 s; the segment finalized by the fourth chunk holds
  all four chunks, 2048 samples (128 ms), which is more audio than the 64 ms before the end
  time. Its start is 0, not 0.064 - 2048 / 16000 = -0.064.\<close>

theorem segment_start_counterexample:
  "run_events (process_all short_engine short_run) =
     [speech_start \<lparr> ev_isSpeech = True, ev_probability = 0.9, ev_timestamp = 0.032,
         ev_segment = None \<rparr>,
      speech_end \<lparr> ev_isSpeech = False, ev_probability = 0, ev_timestamp = 0.064,
         ev_segment = Some \<lparr> seg_start = 0, seg_end = 0.064, seg_duration = 128,
           seg_audioData = replicate 512 0.9 @ replicate 512 0.9 @ replicate 512 0
                             @ replicate 512 0 \<rparr> \<rparr>]
   \<and> (0::real) \<noteq> 0.064 - 2048 / 16000"
  by (simp add: run_simps short_engine_def short_config_def short_run_def run_events_def)

section \<open>One state-machine update per call\<close>

text \<open>Claim C10: a call of \<open>process\<close> that returns performs exactly one update of the
  state machine, however many frames it completed: the frame loop leaves the fields of the
  state machine as they were, and the result of the call is the result of one
  \<open>updateVADState\<close> on that engine. The probability passed to it (and returned by the call)
  is the arithmetic mean of the probabilities of the completed frames and the duration
  passed is 32 ms per completed frame; when no frame was completed they are the
  \<open>lastProbability\<close> left by earlier calls (0 on a new engine and after \<open>reset\<close>) and the
  duration of the chunk, \<open>length / 16000\<close> seconds in milliseconds. On an initialised engine
  every call returns. (Inside \<open>updateVADState\<close> a duration that is not positive, that of an
  empty chunk, counts as one frame of 32 ms.)\<close>

theorem process_single_update:
  "(session v \<noteq> None \<and> stateTensor v \<noteq> None \<longrightarrow>
      (\<exists>r inferred evs v'. process v a ts = Inr (r, inferred, evs, v')))
   \<and> (process v a ts = Inr (r, inferred, evs, v') \<longrightarrow>
        list_all (\<lambda>f. length f = frameSize) (map fst inferred)
        \<and> res_probability r =
            (if inferred = [] then lastProbability v
             else sum_list (map snd inferred) / real (length inferred))
        \<and> (\<exists>vm. machine_fields vm = machine_fields v
              \<and> (res_isSpeech r, evs, v') =
                  updateVADState vm
                    (if inferred = [] then lastProbability v
                     else sum_list (map snd inferred) / real (length inferred))
                    ts
                    (if inferred = [] then (real (length a) / 16000) * 1000
                     else real (length inferred) * 32)))
   \<and> lastProbability (new_SileroVAD cfg) = 0
   \<and> lastProbability (reset v) = 0"
proof -
  have "process v a ts = Inr (r, inferred, evs, v') \<Longrightarrow>
        list_all (\<lambda>f. length f = frameSize) (map fst inferred)
        \<and> res_probability r =
            (if inferred = [] then lastProbability v
             else sum_list (map snd inferred) / real (length inferred))
        \<and> (\<exists>vm. machine_fields vm = machine_fields v
              \<and> (res_isSpeech r, evs, v') =
                  updateVADState vm
                    (if inferred = [] then lastProbability v
                     else sum_list (map snd inferred) / real (length inferred))
                    ts
                    (if inferred = [] then (real (length a) / 16000) * 1000
                     else real (length inferred) * 32))"
  proof -
    assume "process v a ts = Inr (r, inferred, evs, v')"
    from process_Inr [OF this] obtain vm where
      vm: "machine_fields vm = machine_fields v"
        "list_all (\<lambda>f. length f = frameSize) (map fst inferred)"
        "res_probability r =
           (if inferred = [] then lastProbability v
            else sum_list (map snd inferred) / real (length inferred))"
        "(res_isSpeech r, evs, v') =
           updateVADState vm (res_probability r) ts
             (if inferred = [] then (real (length a) / 16000) * 1000
              else real (length inferred) * 32)"
      by blast
    from vm(4) have "(res_isSpeech r, evs, v') =
           updateVADState vm
             (if inferred = [] then lastProbability v
              else sum_list (map snd inferred) / real (length inferred)) ts
             (if inferred = [] then (real (length a) / 16000) * 1000
              else real (length inferred) * 32)"
      unfolding vm(3) .
    with vm(1,2,3) show ?thesis by blast
  qed
  moreover have "lastProbability (new_SileroVAD cfg) = 0" by (simp add: new_SileroVAD_def)
  moreover have "lastProbability (reset v) = 0"
    by (simp add: reset_def resetStates_def resetToSilence_def)
  ultimately show ?thesis using process_initialized [of v a ts] by blast
qed

theorem process_single_update_witness:
  "session short_engine \<noteq> None \<and> stateTensor short_engine \<noteq> None
   \<and> process short_engine (replicate 512 0.2 @ replicate 512 0.6 @ replicate 76 0) 0 =
       Inr (\<lparr>res_isSpeech = False, res_probability = 0.4\<rparr>,
            [(replicate 512 0.2, 0.2), (replicate 512 0.6, 0.6)], [],
            short_engine\<lparr> state := potential_start,
              audioBuffer := [replicate 512 0.2 @ replicate 512 0.6 @ replicate 76 0],
              potentialSpeechDurationMs := 64, sampleBuffer := replicate 76 0,
              lastProbability := 0.6 \<rparr>)
   \<and> (\<exists>vm. machine_fields vm = machine_fields short_engine
          \<and> (False, [], short_engine\<lparr> state := potential_start,
              audioBuffer := [replicate 512 0.2 @ replicate 512 0.6 @ replicate 76 0],
              potentialSpeechDurationMs := 64, sampleBuffer := replicate 76 0,
              lastProbability := 0.6 \<rparr>) = updateVADState vm 0.4 0 64)"
proof -
  have init: "session short_engine \<noteq> None" "stateTensor short_engine \<noteq> None"
    by (simp_all add: short_engine_def initialize_def resetStates_def)
  have run: "process short_engine (replicate 512 0.2 @ replicate 512 0.6 @ replicate 76 0) 0 =
       Inr (\<lparr>res_isSpeech = False, res_probability = 0.4\<rparr>,
            [(replicate 512 0.2, 0.2), (replicate 512 0.6, 0.6)], [],
            short_engine\<lparr> state := potential_start,
              audioBuffer := [replicate 512 0.2 @ replicate 512 0.6 @ replicate 76 0],
              potentialSpeechDurationMs := 64, sampleBuffer := replicate 76 0,
              lastProbability := 0.6 \<rparr>)"
    by (simp add: run_simps short_engine_def short_config_def)
  show ?thesis
    using process_single_update [of short_engine
        "replicate 512 0.2 @ replicate 512 0.6 @ replicate 76 0" 0
        "\<lparr>res_isSpeech = False, res_probability = 0.4\<rparr>"
        "[(replicate 512 0.2, 0.2), (replicate 512 0.6, 0.6)]" "[]"
        "short_engine\<lparr> state := potential_start,
              audioBuffer := [replicate 512 0.2 @ replicate 512 0.6 @ replicate 76 0],
              potentialSpeechDurationMs := 64, sampleBuffer := replicate 76 0,
              lastProbability := 0.6 \<rparr>"]
      init run
    by (simp add: frameSize_def)
qed

section \<open>The vad-result events of the queue path\<close>

lemma vad_results_engine_events:
  "vad_results (map engine_event evs @ rest) = vad_results rest"
  by (induction evs) simp_all

lemma processQueue_step:
  "process v a ts = Inr (r, inferred, evs, v1) \<Longrightarrow>
     vad_results (fst (processQueue v ((a, ts) # queue))) =
       \<lparr> vr_isSpeech = res_isSpeech r, vr_probability = res_probability r, vr_timestamp = ts \<rparr>
         # vad_results (fst (processQueue v1 queue))"
  by (simp add: vad_results_engine_events)

lemma processQueue_timestamps:
  "session v \<noteq> None \<Longrightarrow> stateTensor v \<noteq> None \<Longrightarrow>
     map vr_timestamp (vad_results (fst (processQueue v queue))) = map snd queue"
proof (induction queue arbitrary: v)
  case Nil
  then show ?case by simp
next
  case (Cons ch rest)
  obtain a ts where ch: "ch = (a, ts)" by (cases ch)
  from process_initialized [OF Cons.prems] obtain r inf1 evs1 v1 where
    p1: "process v a ts = Inr (r, inf1, evs1, v1)" by blast
  from process_Inr_initialized [OF p1 Cons.prems] have
    "session v1 \<noteq> None" "stateTensor v1 \<noteq> None" by simp_all
  from Cons.IH [OF this] show ?case
    by (simp add: ch processQueue_step [OF p1] del: processQueue.simps)
qed

text \<open>Claim C9: the queue path emits one vad-result event for every processed frame, in
  arrival order and whatever the speech-start and speech-end events in between: on an
  initialised engine the timestamps of the vad-result events are exactly the timestamps of
  the queued frames, and the event of a frame carries the \<open>isSpeech\<close> flag and the
  probability that \<open>process\<close> returned for that frame together with its timestamp.\<close>

theorem vad_result_per_frame:
  "(session v \<noteq> None \<and> stateTensor v \<noteq> None \<longrightarrow>
      map vr_timestamp (vad_results (fst (processQueue v queue))) = map snd queue)
   \<and> (process v a ts = Inr (r, inferred, evs, v1) \<longrightarrow>
        vad_results (fst (processQueue v ((a, ts) # queue))) =
          \<lparr> vr_isSpeech = res_isSpeech r, vr_probability = res_probability r,
            vr_timestamp = ts \<rparr> # vad_results (fst (processQueue v1 queue)))"
  using processQueue_timestamps [of v queue] processQueue_step [of v a ts r inferred evs v1 queue]
  by blast

theorem vad_result_per_frame_witness:
  "session short_engine \<noteq> None \<and> stateTensor short_engine \<noteq> None
   \<and> map vr_timestamp (vad_results (fst (processQueue short_engine short_run))) =
       [0, 0.032, 0.064, 0.096]
   \<and> process short_engine (replicate 512 0.9) 0 =
       Inr (\<lparr>res_isSpeech = False, res_probability = 0.9\<rparr>, [(replicate 512 0.9, 0.9)], [],
            short_engine\<lparr> state := potential_start, audioBuffer := [replicate 512 0.9],
              potentialSpeechDurationMs := 32, lastProbability := 0.9 \<rparr>)
   \<and> vad_results (fst (processQueue short_engine ((replicate 512 0.9, 0) # short_run))) =
       \<lparr> vr_isSpeech = False, vr_probability = 0.9, vr_timestamp = 0 \<rparr>
         # vad_results (fst (processQueue
             (short_engine\<lparr> state := potential_start, audioBuffer := [replicate 512 0.9],
                potentialSpeechDurationMs := 32, lastProbability := 0.9 \<rparr>)
             short_run))"
proof -
  have init: "session short_engine \<noteq> None \<and> stateTensor short_engine \<noteq> None"
    by (simp add: short_engine_def initialize_def resetStates_def)
  have run: "process short_engine (replicate 512 0.9) 0 =
       Inr (\<lparr>res_isSpeech = False, res_probability = 0.9\<rparr>, [(replicate 512 0.9, 0.9)], [],
            short_engine\<lparr> state := potential_start, audioBuffer := [replicate 512 0.9],
              potentialSpeechDurationMs := 32, lastProbability := 0.9 \<rparr>)"
    by (simp add: run_simps short_engine_def short_config_def)
  have ts: "map snd short_run = [0, 0.032, 0.064, 0.096]"
    by (simp add: short_run_def)
  note inst = vad_result_per_frame [of short_engine short_run "replicate 512 0.9" 0
        "\<lparr>res_isSpeech = False, res_probability = 0.9\<rparr>" "[(replicate 512 0.9, 0.9)]" "[]"
        "short_engine\<lparr> state := potential_start, audioBuffer := [replicate 512 0.9],
              potentialSpeechDurationMs := 32, lastProbability := 0.9 \<rparr>"]
  from inst init have a: "map vr_timestamp (vad_results (fst (processQueue short_engine short_run)))
                            = map snd short_run"
    by blast
  from inst run have
    "vad_results (fst (processQueue short_engine ((replicate 512 0.9, 0) # short_run))) =
       \<lparr> vr_isSpeech = res_isSpeech \<lparr>res_isSpeech = False, res_probability = 0.9\<rparr>,
         vr_probability = res_probability \<lparr>res_isSpeech = False, res_probability = 0.9\<rparr>,
         vr_timestamp = 0 \<rparr>
         # vad_results (fst (processQueue
             (short_engine\<lparr> state := potential_start, audioBuffer := [replicate 512 0.9],
                potentialSpeechDurationMs := 32, lastProbability := 0.9 \<rparr>)
             short_run))"
    by blast
  then have b:
    "vad_results (fst (processQueue short_engine ((replicate 512 0.9, 0) # short_run))) =
       \<lparr> vr_isSpeech = False, vr_probability = 0.9, vr_timestamp = 0 \<rparr>
         # vad_results (fst (processQueue
             (short_engine\<lparr> state := potential_start, audioBuffer := [replicate 512 0.9],
                potentialSpeechDurationMs := 32, lastProbability := 0.9 \<rparr>)
             short_run))"
    by (simp del: processQueue.simps)
  from init run a [unfolded ts] b show ?thesis by blast
qed

end
